theory Spec2Isabelle
  imports Main
begin

section \<open>Data model\<close>

text \<open>
  The screens of the mobile client keep incidents as plain JavaScript objects decoded from
  the backend's JSON. A field that may be \<^verbatim>\<open>null\<close> or absent is an option.
  The field \<^verbatim>\<open>id\<close> is called \<open>inc_id\<close> here.
\<close>

record user =
  user_id :: int
  username :: string
  role :: string

record incident =
  inc_id :: int
  camera_id :: "int option"
  description :: "string option"
  acknowledged :: "bool option"
  status :: "string option"
  assigned_user_id :: "int option"
  assigned_user :: "user option"

text \<open>The uniform result shape \<^verbatim>\<open>{success, data?, message?}\<close> of services/api.js.\<close>

datatype 'a api_result = ApiOk 'a | ApiFail "string option"

fun success :: "'a api_result \<Rightarrow> bool" where
  "success (ApiOk d) = True"
| "success (ApiFail m) = False"

text \<open>What an awaited call hands to the screen: a result object, or a thrown exception.\<close>

datatype 'a awaited = Returned "'a api_result" | Threw string

text \<open>JavaScript truthiness of a number and of a string.\<close>

definition truthy_num :: "int \<Rightarrow> bool" where
  "truthy_num n = (n \<noteq> 0)"

definition truthy_str :: "string \<Rightarrow> bool" where
  "truthy_str s = (s \<noteq> [])"

text \<open>\<^verbatim>\<open>String.prototype.startsWith\<close> and \<^verbatim>\<open>String.prototype.includes\<close>.\<close>

fun startsWith :: "string \<Rightarrow> string \<Rightarrow> bool" where
  "startsWith s [] = True"
| "startsWith [] (p # ps) = False"
| "startsWith (c # cs) (p # ps) = (c = p \<and> startsWith cs ps)"

fun includes_str :: "string \<Rightarrow> string \<Rightarrow> bool" where
  "includes_str [] p = startsWith [] p"
| "includes_str (c # cs) p = (startsWith (c # cs) p \<or> includes_str cs p)"

text \<open>\<^verbatim>\<open>item.status === 'acknowledged' || item.acknowledged === true\<close>, the test every
  dashboard uses to decide whether an incident is shown as handled.\<close>

definition isAcknowledged :: "incident \<Rightarrow> bool" where
  "isAcknowledged item = (status item = Some ''acknowledged'' \<or> acknowledged item = Some True)"

section \<open>services/api.js: acknowledgeIncident\<close>

text \<open>
  What \<^verbatim>\<open>fetch\<close> followed by \<^verbatim>\<open>res.json()\<close> can do: reject (network error), give a
  body that is not JSON, or give a response with its \<^verbatim>\<open>ok\<close> flag and the \<^verbatim>\<open>detail\<close>
  field of the decoded body.
\<close>

datatype fetch_outcome = NetworkError string | BadJson string | Response bool "string option"

text \<open>The request \<^verbatim>\<open>PUT /api/v1/incidents/{id}/acknowledge?acknowledged={flag}\<close>.\<close>

record ack_request =
  req_incident :: int
  req_acknowledged :: bool

definition or_else :: "string option \<Rightarrow> string \<Rightarrow> string" where
  "or_else m d = (case m of None \<Rightarrow> d | Some s \<Rightarrow> if truthy_str s then s else d)"

definition acknowledgeIncidentWithStatus ::
  "string \<Rightarrow> int \<Rightarrow> bool \<Rightarrow> (ack_request \<Rightarrow> fetch_outcome) \<Rightarrow> ack_request \<times> unit api_result" where
  "acknowledgeIncidentWithStatus base i flag backend =
     (let req = \<lparr>req_incident = i, req_acknowledged = flag\<rparr> in
      (req,
       case backend req of
         NetworkError m \<Rightarrow> ApiFail (Some (or_else (Some m) ''Network error'' @ '' (base: '' @ base @ '')''))
       | BadJson m \<Rightarrow> ApiFail (Some (or_else (Some m) ''Network error'' @ '' (base: '' @ base @ '')''))
       | Response ok detail \<Rightarrow>
           if \<not> ok then ApiFail (Some (or_else detail ''Failed to acknowledge''))
           else ApiOk ()))"

definition acknowledgeIncident ::
  "string \<Rightarrow> int \<Rightarrow> (ack_request \<Rightarrow> fetch_outcome) \<Rightarrow> ack_request \<times> unit api_result" where
  "acknowledgeIncident base i backend = acknowledgeIncidentWithStatus base i True backend"

section \<open>screens/SecurityDashboard.jsx: SecurityDashboardScreen\<close>

datatype alert = Alert string string

record sd_state =
  incidents :: "incident list"
  acknowledgedIncidentsRef :: "int set"
  actionLoading :: "int \<Rightarrow> bool option"
  alerts :: "alert list"
  loadingIncidents :: bool

text \<open>
  The merge of \<^verbatim>\<open>fetchIncidents\<close>: \<^verbatim>\<open>response.data.map\<close> runs over the list from left to
  right and its callback adds to \<^verbatim>\<open>acknowledgedIncidentsRef\<close> as it goes, so the set is
  threaded through the recursion.
\<close>

fun mergeAcknowledged :: "int set \<Rightarrow> incident list \<Rightarrow> incident list \<times> int set" where
  "mergeAcknowledged ref [] = ([], ref)"
| "mergeAcknowledged ref (inc # rest) =
     (if inc_id inc \<in> ref then
        (let (out, ref') = mergeAcknowledged ref rest
         in (inc\<lparr>acknowledged := Some True, status := Some ''acknowledged''\<rparr> # out, ref'))
      else
        (let ref1 = (if acknowledged inc = Some True \<or> status inc = Some ''acknowledged''
                     then insert (inc_id inc) ref else ref);
             (out, ref') = mergeAcknowledged ref1 rest
         in (inc # out, ref')))"

text \<open>\<^verbatim>\<open>fetchIncidents\<close> once \<^verbatim>\<open>getIncidents()\<close> has settled.\<close>

definition fetchIncidents :: "incident list awaited \<Rightarrow> sd_state \<Rightarrow> sd_state" where
  "fetchIncidents response s =
     (case response of
        Returned (ApiOk data) \<Rightarrow>
          (let (updatedData, ref') = mergeAcknowledged (acknowledgedIncidentsRef s) data
           in s\<lparr>incidents := updatedData, acknowledgedIncidentsRef := ref', loadingIncidents := False\<rparr>)
      | Returned (ApiFail m) \<Rightarrow>
          s\<lparr>alerts := alerts s @ [Alert ''Error'' (or_else m ''Failed to fetch incidents.'')],
            loadingIncidents := False\<rparr>
      | Threw e \<Rightarrow> s\<lparr>loadingIncidents := False\<rparr>)"

text \<open>\<^verbatim>\<open>acknowledge(incidentId)\<close>, first the part that runs before the \<^verbatim>\<open>await\<close>.\<close>

definition markAcknowledged :: "int \<Rightarrow> incident list \<Rightarrow> incident list" where
  "markAcknowledged incidentId prev =
     map (\<lambda>inc. if inc_id inc = incidentId
                 then inc\<lparr>acknowledged := Some True, status := Some ''acknowledged''\<rparr>
                 else inc) prev"

definition revertAcknowledged :: "int \<Rightarrow> incident list \<Rightarrow> incident list" where
  "revertAcknowledged incidentId prev =
     map (\<lambda>inc. if inc_id inc = incidentId
                 then inc\<lparr>acknowledged := Some False, status := Some ''pending''\<rparr>
                 else inc) prev"

definition acknowledge_begin :: "int \<Rightarrow> sd_state \<Rightarrow> sd_state" where
  "acknowledge_begin incidentId s =
     s\<lparr>actionLoading := (actionLoading s)(incidentId := Some True),
       incidents := markAcknowledged incidentId (incidents s),
       acknowledgedIncidentsRef := insert incidentId (acknowledgedIncidentsRef s)\<rparr>"

text \<open>The part after the \<^verbatim>\<open>await\<close>, with the \<^verbatim>\<open>catch\<close> and \<^verbatim>\<open>finally\<close> blocks.\<close>

definition acknowledge_end :: "int \<Rightarrow> unit awaited \<Rightarrow> sd_state \<Rightarrow> sd_state" where
  "acknowledge_end incidentId res s =
     (let s1 =
        (case res of
           Returned (ApiOk d) \<Rightarrow>
             s\<lparr>alerts := alerts s @
               [Alert ''Success'' ''Incident marked as handled. Admin and incident reporter have been notified.'']\<rparr>
         | Returned (ApiFail m) \<Rightarrow>
             s\<lparr>incidents := revertAcknowledged incidentId (incidents s),
               acknowledgedIncidentsRef := acknowledgedIncidentsRef s - {incidentId},
               alerts := alerts s @ [Alert ''Error'' (or_else m ''Failed to acknowledge incident'')]\<rparr>
         | Threw e \<Rightarrow>
             s\<lparr>incidents := revertAcknowledged incidentId (incidents s),
               acknowledgedIncidentsRef := acknowledgedIncidentsRef s - {incidentId},
               alerts := alerts s @ [Alert ''Error'' ''Failed to acknowledge incident'']\<rparr>)
      in s1\<lparr>actionLoading := (actionLoading s1)(incidentId := Some False)\<rparr>)"

definition acknowledge :: "int \<Rightarrow> unit awaited \<Rightarrow> sd_state \<Rightarrow> sd_state" where
  "acknowledge incidentId res s = acknowledge_end incidentId res (acknowledge_begin incidentId s)"

text \<open>The invariant of the data model: the status string and the boolean flag agree.\<close>

definition consistent :: "incident \<Rightarrow> bool" where
  "consistent inc = ((status inc = Some ''acknowledged'') = (acknowledged inc = Some True))"

section \<open>screens/SecurityDashboardNew.jsx: the security dashboard with tabs\<close>

record sdn_state =
  sdn_incidents :: "incident list"
  sosAlerts :: "incident list"
  userProfile :: "user option"
  sdn_ref :: "int set"
  sdn_actionLoading :: "int \<Rightarrow> bool option"
  sdn_alerts :: "alert list"

text \<open>\<^verbatim>\<open>updateFunc\<close> and \<^verbatim>\<open>revertFunc\<close> of \<^verbatim>\<open>handleAcknowledge\<close>; \<^verbatim>\<open>userProfile?.id\<close> is
  undefined while the profile has not loaded.\<close>

definition updateFunc :: "user option \<Rightarrow> int \<Rightarrow> incident list \<Rightarrow> incident list" where
  "updateFunc profile incidentId prev =
     map (\<lambda>inc. if inc_id inc = incidentId
                 then inc\<lparr>acknowledged := Some True, status := Some ''acknowledged'',
                          assigned_user_id := map_option user_id profile, assigned_user := profile\<rparr>
                 else inc) prev"

definition revertFunc :: "int \<Rightarrow> incident list \<Rightarrow> incident list" where
  "revertFunc incidentId prev =
     map (\<lambda>inc. if inc_id inc = incidentId
                 then inc\<lparr>acknowledged := Some False, status := Some ''pending'',
                          assigned_user_id := None, assigned_user := None\<rparr>
                 else inc) prev"

definition apply_to_list :: "bool \<Rightarrow> (incident list \<Rightarrow> incident list) \<Rightarrow> sdn_state \<Rightarrow> sdn_state" where
  "apply_to_list isSOS f s =
     (if isSOS then s\<lparr>sosAlerts := f (sosAlerts s)\<rparr> else s\<lparr>sdn_incidents := f (sdn_incidents s)\<rparr>)"

definition handleAcknowledge_begin :: "int \<Rightarrow> bool \<Rightarrow> sdn_state \<Rightarrow> sdn_state" where
  "handleAcknowledge_begin incidentId isSOS s =
     (let s1 = s\<lparr>sdn_actionLoading := (sdn_actionLoading s)(incidentId := Some True)\<rparr>;
          s2 = apply_to_list isSOS (updateFunc (userProfile s1) incidentId) s1
      in s2\<lparr>sdn_ref := insert incidentId (sdn_ref s2)\<rparr>)"

text \<open>After the \<^verbatim>\<open>await\<close>. The \<^verbatim>\<open>catch\<close> block of this screen only shows an alert.\<close>

definition handleAcknowledge_end :: "int \<Rightarrow> bool \<Rightarrow> unit awaited \<Rightarrow> sdn_state \<Rightarrow> sdn_state" where
  "handleAcknowledge_end incidentId isSOS res s =
     (let s1 =
        (case res of
           Returned (ApiOk d) \<Rightarrow>
             s\<lparr>sdn_alerts := sdn_alerts s @
               [Alert ''Success'' ''Incident handled by security! Admin and reporter have been notified.'']\<rparr>
         | Returned (ApiFail m) \<Rightarrow>
             (let s' = apply_to_list isSOS (revertFunc incidentId) s
              in s'\<lparr>sdn_ref := sdn_ref s' - {incidentId},
                    sdn_alerts := sdn_alerts s' @ [Alert ''Error'' (or_else m ''Failed to handle incident'')]\<rparr>)
         | Threw e \<Rightarrow>
             s\<lparr>sdn_alerts := sdn_alerts s @ [Alert ''Error'' ''Failed to handle incident'']\<rparr>)
      in s1\<lparr>sdn_actionLoading := (sdn_actionLoading s1)(incidentId := Some False)\<rparr>)"

text \<open>
  The whole call. \<^verbatim>\<open>acknowledgeIncident\<close> has its own \<^verbatim>\<open>try/catch\<close> and always returns a
  result object, so the screens receive \<open>Returned\<close>.
\<close>

definition handleAcknowledge ::
  "string \<Rightarrow> (ack_request \<Rightarrow> fetch_outcome) \<Rightarrow> int \<Rightarrow> bool \<Rightarrow> sdn_state \<Rightarrow> sdn_state" where
  "handleAcknowledge base backend incidentId isSOS s =
     handleAcknowledge_end incidentId isSOS
       (Returned (snd (acknowledgeIncident base incidentId backend)))
       (handleAcknowledge_begin incidentId isSOS s)"

definition acknowledge_call ::
  "string \<Rightarrow> (ack_request \<Rightarrow> fetch_outcome) \<Rightarrow> int \<Rightarrow> sd_state \<Rightarrow> sd_state" where
  "acknowledge_call base backend incidentId s =
     acknowledge incidentId (Returned (snd (acknowledgeIncident base incidentId backend))) s"

text \<open>A failed attempt: the request was rejected, or answered without \<^verbatim>\<open>res.ok\<close>.\<close>

fun failed_attempt :: "fetch_outcome \<Rightarrow> bool" where
  "failed_attempt (NetworkError m) = True"
| "failed_attempt (BadJson m) = True"
| "failed_attempt (Response ok detail) = (\<not> ok)"

text \<open>The pre-transition values of a pending incident.\<close>

definition pending :: "incident \<Rightarrow> bool" where
  "pending inc = (acknowledged inc = Some False \<and> status inc = Some ''pending'')"

subsection \<open>The three tabs\<close>

definition isViewerReport :: "incident \<Rightarrow> bool" where
  "isViewerReport i = (case description i of None \<Rightarrow> False | Some d \<Rightarrow> startsWith d ''[VIEWER REPORT]'')"

definition isSOSAlert :: "incident \<Rightarrow> bool" where
  "isSOSAlert i = (case description i of None \<Rightarrow> False | Some d \<Rightarrow> startsWith d ''[SOS ALERT]'')"

text \<open>\<^verbatim>\<open>userProfile?.id && i.assigned_user_id === userProfile.id\<close>\<close>

definition isAssignedToMe :: "user option \<Rightarrow> incident \<Rightarrow> bool" where
  "isAssignedToMe profile i =
     (case profile of None \<Rightarrow> False
      | Some u \<Rightarrow> truthy_num (user_id u) \<and> assigned_user_id i = Some (user_id u))"

definition viewerReports :: "incident list \<Rightarrow> incident list" where
  "viewerReports incs = filter isViewerReport incs"

text \<open>The filter inside \<^verbatim>\<open>getSOSAlerts\<close> of services/api.js, which feeds the SOS tab.\<close>

definition getSOSAlerts :: "incident list \<Rightarrow> incident list" where
  "getSOSAlerts data = filter isSOSAlert data"

definition assignedIncidents :: "user option \<Rightarrow> incident list \<Rightarrow> incident list" where
  "assignedIncidents profile incs = filter (isAssignedToMe profile) incs"

section \<open>The viewer dashboards: which incidents a viewer sees\<close>

record camera =
  cam_id :: int
  admin_user_id :: "int option"

text \<open>\<^verbatim>\<open>Number(x)\<close> on a JSON number or \<^verbatim>\<open>null\<close>: \<^verbatim>\<open>Number(null)\<close> is 0.\<close>

definition Number :: "int option \<Rightarrow> int" where
  "Number x = (case x of None \<Rightarrow> 0 | Some n \<Rightarrow> n)"

text \<open>ViewerDashboardScreen (screens/ViewerDashboardClean_backup.jsx), \<^verbatim>\<open>fetchIncidents\<close>.\<close>

definition ownedCameraIds :: "user \<Rightarrow> camera list \<Rightarrow> int set" where
  "ownedCameraIds usr cameras =
     set (map cam_id (filter (\<lambda>c. Number (admin_user_id c) = user_id usr) cameras))"

definition filteredIncidents :: "user \<Rightarrow> camera list \<Rightarrow> incident list \<Rightarrow> incident list" where
  "filteredIncidents usr cameras allIncidents =
     filter (\<lambda>inc. let cameraId = Number (camera_id inc);
                       ownedByUser = cameraId \<in> ownedCameraIds usr cameras;
                       isAICamera = cameraId \<ge> 29
                   in ownedByUser \<or> isAICamera) allIncidents"

text \<open>ViewerDashboardNew, \<^verbatim>\<open>fetchIncidents\<close>: the filter on the description tags.\<close>

definition currentUsername :: "user option \<Rightarrow> string" where
  "currentUsername profile = (case profile of None \<Rightarrow> [] | Some u \<Rightarrow> username u)"

definition keepForViewer :: "user option \<Rightarrow> incident \<Rightarrow> bool" where
  "keepForViewer profile i =
     (if isSOSAlert i \<and> truthy_str (currentUsername profile) \<and>
         (case description i of None \<Rightarrow> False
          | Some d \<Rightarrow> includes_str d (''User: '' @ currentUsername profile))
      then True
      else if isViewerReport i then False
      else True)"

definition filteredList :: "user option \<Rightarrow> incident list \<Rightarrow> incident list" where
  "filteredList profile newList = filter (keepForViewer profile) newList"

section \<open>The SOS button\<close>

text \<open>The body of \<^verbatim>\<open>createIncident\<close> sent by the SOS handler of ViewerDashboardScreen.\<close>

record sos_payload =
  p_camera_id :: int
  p_type :: string
  p_severity :: string
  p_severity_score :: int
  p_description :: string

datatype banner = SecurityNotified | IncidentCreated | OfflineMode | WillSync

record vd_state =
  vd_incidents :: "incident list"
  sosSentRef :: bool
  sosDisabled :: bool
  bannerMessage :: "banner option"
  openDialogs :: nat
  createIncidentCalls :: "sos_payload list"
  vd_refetches :: nat

text \<open>
  ViewerDashboardScreen (screens/ViewerDashboardClean_backup.jsx) renders the SOS button
  only under \<^verbatim>\<open>!sosDisabled && !sosSentRef.current\<close>. A tap on the button opens the
  confirmation dialog "Emergency SOS"; \<open>openDialogs\<close> counts the dialogs that are open.
  The dialog's button "Send SOS" runs the handler below, its button "Cancel" only closes
  the dialog.
\<close>

definition sosButtonRendered :: "vd_state \<Rightarrow> bool" where
  "sosButtonRendered s = (\<not> sosDisabled s \<and> \<not> sosSentRef s)"

text \<open>\<^verbatim>\<open>incidents?.[0]?.camera_id\<close>\<close>

definition firstCameraId :: "incident list \<Rightarrow> int option" where
  "firstCameraId incs = (case incs of [] \<Rightarrow> None | i # rest \<Rightarrow> camera_id i)"

text \<open>The handler of "Send SOS" up to its \<^verbatim>\<open>await createIncident(payload)\<close>. It writes
  \<^verbatim>\<open>sosSentRef.current\<close> and \<^verbatim>\<open>sosDisabled\<close> and reads neither.\<close>

definition sendSOS_onPress :: "vd_state \<Rightarrow> vd_state" where
  "sendSOS_onPress s =
     (let s1 = s\<lparr>sosSentRef := True, sosDisabled := True\<rparr> in
      case firstCameraId (vd_incidents s1) of
        None \<Rightarrow> s1\<lparr>bannerMessage := Some SecurityNotified\<rparr>
      | Some cameraId \<Rightarrow>
          if \<not> truthy_num cameraId then s1\<lparr>bannerMessage := Some SecurityNotified\<rparr>
          else s1\<lparr>createIncidentCalls := createIncidentCalls s1 @
                 [\<lparr>p_camera_id = cameraId, p_type = ''fall_health'', p_severity = ''critical'',
                   p_severity_score = 100, p_description = ''SOS triggered by viewer''\<rparr>]\<rparr>)"

text \<open>The rest of the handler, once \<^verbatim>\<open>createIncident\<close> has settled.\<close>

definition sendSOS_settled :: "unit awaited \<Rightarrow> vd_state \<Rightarrow> vd_state" where
  "sendSOS_settled res s =
     (case res of
        Returned (ApiOk d) \<Rightarrow> s\<lparr>bannerMessage := Some IncidentCreated, vd_refetches := Suc (vd_refetches s)\<rparr>
      | Returned (ApiFail m) \<Rightarrow> s\<lparr>bannerMessage := Some OfflineMode\<rparr>
      | Threw e \<Rightarrow> s\<lparr>bannerMessage := Some WillSync\<rparr>)"

text \<open>
  What can happen on the mounted screen: a tap on the SOS button, the choice of "Send SOS"
  or of "Cancel" in an open dialog, the settling of a \<^verbatim>\<open>createIncident\<close> call, and a
  refresh of the incident list by \<^verbatim>\<open>fetchIncidents\<close>.
\<close>

datatype sos_event = TapSOS | ConfirmSOS | CancelSOS | Settled "unit awaited" | Refetched "incident list"

fun vd_step :: "vd_state \<Rightarrow> sos_event \<Rightarrow> vd_state" where
  "vd_step s TapSOS =
     (if sosButtonRendered s then s\<lparr>openDialogs := Suc (openDialogs s)\<rparr> else s)"
| "vd_step s ConfirmSOS =
     (case openDialogs s of 0 \<Rightarrow> s | Suc n \<Rightarrow> sendSOS_onPress (s\<lparr>openDialogs := n\<rparr>))"
| "vd_step s CancelSOS =
     (case openDialogs s of 0 \<Rightarrow> s | Suc n \<Rightarrow> s\<lparr>openDialogs := n\<rparr>)"
| "vd_step s (Settled res) = sendSOS_settled res s"
| "vd_step s (Refetched incs) = s\<lparr>vd_incidents := incs\<rparr>"

definition vd_run :: "vd_state \<Rightarrow> sos_event list \<Rightarrow> vd_state" where
  "vd_run s evs = foldl vd_step s evs"

text \<open>The state of a freshly mounted ViewerDashboardScreen showing \<open>incs\<close>.\<close>

definition vd_mounted :: "incident list \<Rightarrow> vd_state" where
  "vd_mounted incs =
     \<lparr>vd_incidents = incs, sosSentRef = False, sosDisabled = False, bannerMessage = None,
      openDialogs = 0, createIncidentCalls = [], vd_refetches = 0\<rparr>"

text \<open>
  ViewerDashboardNew: the SOS button opens a modal, and the modal's "Send SOS Alert"
  button calls \<^verbatim>\<open>handleSOS\<close>. The call \<^verbatim>\<open>sendSOSAlert(message, 'Mobile App', userInfo)\<close> is
  recorded with its message and the user information. \<open>vdn_phone\<close> and \<open>vdn_email\<close> are
  \<^verbatim>\<open>userProfile?.phone\<close> and \<^verbatim>\<open>userProfile?.email\<close>, empty when absent.
\<close>

record sos_userInfo =
  ui_username :: string
  ui_phone :: string
  ui_email :: string

record vdn_state =
  sosModal :: bool
  sosMessage :: string
  vdn_profile :: "user option"
  vdn_phone :: string
  vdn_email :: string
  editPhone :: string
  sendSOSAlertCalls :: "(string \<times> sos_userInfo) list"
  vdn_alerts :: "alert list"

definition or_str :: "string \<Rightarrow> string \<Rightarrow> string" where
  "or_str a b = (if truthy_str a then a else b)"

text \<open>\<^verbatim>\<open>String.prototype.trim\<close> on the white space of ASCII: space, tab, line feed,
  vertical tab, form feed and carriage return.\<close>

definition is_space :: "char \<Rightarrow> bool" where
  "is_space c = (c \<in> set [CHR '' '', CHR 0x09, CHR 0x0A, CHR 0x0B, CHR 0x0C, CHR 0x0D])"

definition trim :: "string \<Rightarrow> string" where
  "trim s = rev (dropWhile is_space (rev (dropWhile is_space s)))"

text \<open>\<^verbatim>\<open>handleSOS\<close> up to its \<^verbatim>\<open>await\<close>.\<close>

definition handleSOS_begin :: "vdn_state \<Rightarrow> vdn_state" where
  "handleSOS_begin s =
     (let message = or_str (trim (sosMessage s)) ''Emergency SOS Alert!'';
          userInfo = \<lparr>ui_username = (case vdn_profile s of None \<Rightarrow> ''Unknown User''
                                       | Some u \<Rightarrow> or_str (username u) ''Unknown User''),
                      ui_phone = or_str (vdn_phone s) (or_str (editPhone s) ''N/A''),
                      ui_email = or_str (vdn_email s) ''N/A''\<rparr>
      in s\<lparr>sendSOSAlertCalls := sendSOSAlertCalls s @ [(message, userInfo)]\<rparr>)"

definition handleSOS_settled :: "unit awaited \<Rightarrow> vdn_state \<Rightarrow> vdn_state" where
  "handleSOS_settled res s =
     (case res of
        Returned (ApiOk d) \<Rightarrow>
          s\<lparr>vdn_alerts := vdn_alerts s @
               [Alert ''SOS Sent'' ''Emergency alert has been sent to security personnel''],
            sosModal := False, sosMessage := []\<rparr>
      | Returned (ApiFail m) \<Rightarrow>
          s\<lparr>vdn_alerts := vdn_alerts s @
               [Alert ''Error'' (''Failed to send SOS alert: '' @ or_else m ''Unknown error'')]\<rparr>
      | Threw e \<Rightarrow>
          s\<lparr>vdn_alerts := vdn_alerts s @
               [Alert ''Error'' ''Failed to send SOS alert. Please try again.'']\<rparr>)"

datatype vdn_event = OpenSOSModal | CancelSOSModal | PressSendSOSAlert | SOSSettled "unit awaited"

fun vdn_step :: "vdn_state \<Rightarrow> vdn_event \<Rightarrow> vdn_state" where
  "vdn_step s OpenSOSModal = s\<lparr>sosModal := True\<rparr>"
| "vdn_step s CancelSOSModal = s\<lparr>sosModal := False, sosMessage := []\<rparr>"
| "vdn_step s PressSendSOSAlert = (if sosModal s then handleSOS_begin s else s)"
| "vdn_step s (SOSSettled res) = handleSOS_settled res s"

definition vdn_run :: "vdn_state \<Rightarrow> vdn_event list \<Rightarrow> vdn_state" where
  "vdn_run s evs = foldl vdn_step s evs"

definition vdn_mounted :: "user option \<Rightarrow> vdn_state" where
  "vdn_mounted profile =
     \<lparr>sosModal = False, sosMessage = [], vdn_profile = profile, vdn_phone = [], vdn_email = [],
      editPhone = [], sendSOSAlertCalls = [], vdn_alerts = []\<rparr>"

section \<open>GrantAccessScreen: assigning incidents to a security user\<close>

text \<open>
  \<^verbatim>\<open>selectedIncidents\<close> is an object from incident id to a flag; it is given as the list of
  its entries in the order \<^verbatim>\<open>Object.keys\<close> enumerates them. \<^verbatim>\<open>notifyIncident\<close> is the
  backend's answer for each incident id.
\<close>

datatype grant_alert =
    SelectIncidents
  | SelectSecurity
  | AssignedAlert nat nat
  | AssignFailedAlert string

record grant_outcome =
  results :: "unit api_result list"
  succeeded :: "unit api_result list"
  failed :: "unit api_result list"
  shown :: grant_alert
  goBack :: bool

definition selectedIds :: "(int \<times> bool) list \<Rightarrow> int list" where
  "selectedIds selectedIncidents = map fst (filter snd selectedIncidents)"

text \<open>The callback of \<^verbatim>\<open>incidentIds.map\<close>: a rejected call becomes a failure result.\<close>

definition notifyOne :: "(int \<Rightarrow> int list \<Rightarrow> unit awaited) \<Rightarrow> int \<Rightarrow> int \<Rightarrow> unit api_result" where
  "notifyOne notifyIncident selectedUser incId =
     (case notifyIncident incId [selectedUser] of
        Returned res \<Rightarrow> res
      | Threw m \<Rightarrow> ApiFail (Some (or_str m ''Unknown error'')))"

text \<open>
  \<^verbatim>\<open>submit\<close>. The success alert's message is
  \<^verbatim>\<open>Assigned ${succeeded.length} incident(s) to security personnel.\<close> followed by
  \<^verbatim>\<open> ${failed.length} failed.\<close> when \<^verbatim>\<open>failed.length > 0\<close>; \<open>AssignedAlert\<close> carries the two
  numbers. The failure alert shows \<^verbatim>\<open>failed[0]?.message || 'Unknown error'\<close>.
\<close>

definition submit ::
  "(int \<Rightarrow> int list \<Rightarrow> unit awaited) \<Rightarrow> (int \<times> bool) list \<Rightarrow> int option \<Rightarrow> grant_outcome" where
  "submit notifyIncident selectedIncidents selectedUser =
     (let incidentIds = selectedIds selectedIncidents in
      if length incidentIds = 0 then
        \<lparr>results = [], succeeded = [], failed = [], shown = SelectIncidents, goBack = False\<rparr>
      else case selectedUser of
        None \<Rightarrow> \<lparr>results = [], succeeded = [], failed = [], shown = SelectSecurity, goBack = False\<rparr>
      | Some u \<Rightarrow>
          if \<not> truthy_num u then
            \<lparr>results = [], succeeded = [], failed = [], shown = SelectSecurity, goBack = False\<rparr>
          else
            (let rs = map (notifyOne notifyIncident u) incidentIds;
                 ok = filter success rs;
                 bad = filter (\<lambda>r. \<not> success r) rs
             in if length ok > 0 then
                  \<lparr>results = rs, succeeded = ok, failed = bad,
                   shown = AssignedAlert (length ok) (length bad), goBack = True\<rparr>
                else
                  \<lparr>results = rs, succeeded = ok, failed = bad,
                   shown = AssignFailedAlert
                     (case bad of [] \<Rightarrow> ''Unknown error''
                      | r # rest \<Rightarrow> (case r of ApiFail m \<Rightarrow> or_else m ''Unknown error''
                                     | ApiOk d \<Rightarrow> ''Unknown error'')),
                   goBack = False\<rparr>))"

section \<open>Evidence verification\<close>

record evidence =
  ev_id :: int
  ev_incident_id :: "int option"
  file_path :: "string option"
  blockchain_tx_hash :: "string option"
  verification_status :: "string option"
  tamper_status :: "string option"

definition truthy_opt :: "string option \<Rightarrow> bool" where
  "truthy_opt m = (case m of None \<Rightarrow> False | Some s \<Rightarrow> truthy_str s)"

definition truthy_id :: "int option \<Rightarrow> bool" where
  "truthy_id m = (case m of None \<Rightarrow> False | Some n \<Rightarrow> truthy_num n)"

subsection \<open>EvidenceStore (bundled in screens/SecurityDashboard.jsx)\<close>

datatype badge = NotOnBlockchain | BadgeVerified | BadgeTampered | BadgePending

definition getVerificationBadge :: "evidence \<Rightarrow> badge" where
  "getVerificationBadge item =
     (if \<not> truthy_opt (blockchain_tx_hash item) then NotOnBlockchain
      else if verification_status item = Some ''VERIFIED'' then BadgeVerified
      else if verification_status item = Some ''TAMPERED'' then BadgeTampered
      else BadgePending)"

text \<open>What \<^verbatim>\<open>renderItem\<close> draws for one item: its badge, whether the "Verify Evidence"
  button is there, and whether the note "Not on blockchain" is there.\<close>

record item_view =
  view_badge :: badge
  verifyButton :: bool
  notOnBlockchainNote :: bool

datatype rendered = InvalidEvidence | Rendered item_view

definition canVerify :: "string option \<Rightarrow> bool" where
  "canVerify userRole = (userRole = Some ''admin'' \<or> userRole = Some ''viewer'')"

definition renderItem :: "string option \<Rightarrow> evidence \<Rightarrow> rendered" where
  "renderItem userRole item =
     (if \<not> truthy_num (ev_id item) \<or> \<not> truthy_id (ev_incident_id item) \<or> \<not> truthy_opt (file_path item)
      then InvalidEvidence
      else Rendered
        \<lparr>view_badge = getVerificationBadge item,
         verifyButton = (canVerify userRole \<and> truthy_opt (blockchain_tx_hash item)),
         notOnBlockchainNote = (canVerify userRole \<and> \<not> truthy_opt (blockchain_tx_hash item))\<rparr>)"

text \<open>
  \<^verbatim>\<open>handleVerifyEvidence(evidenceId)\<close>: the alerts it shows and the calls of the verify
  endpoint it makes, given what the user picks in the confirmation dialog.
\<close>

datatype dialog_choice = Cancel | Verify

record verify_trace =
  vt_alerts :: "alert list"
  verifyCalls :: "int list"

definition handleVerifyEvidence :: "string option \<Rightarrow> int \<Rightarrow> dialog_choice \<Rightarrow> verify_trace" where
  "handleVerifyEvidence userRole evidenceId choice =
     (if userRole = Some ''security'' then
        \<lparr>vt_alerts = [Alert ''Permission Denied'' ''Security role cannot verify evidence''],
         verifyCalls = []\<rparr>
      else if \<not> truthy_opt userRole \<or> (userRole \<noteq> Some ''admin'' \<and> userRole \<noteq> Some ''viewer'') then
        \<lparr>vt_alerts = [Alert ''Permission Denied'' ''You do not have permission to verify evidence''],
         verifyCalls = []\<rparr>
      else
        \<lparr>vt_alerts = [Alert ''Verify Evidence'' ''Verify this evidence on the blockchain?''],
         verifyCalls = (case choice of Cancel \<Rightarrow> [] | Verify \<Rightarrow> [evidenceId])\<rparr>)"

text \<open>A verify invocation from the screen: a press on the item's button, if it is drawn.\<close>

definition pressVerify :: "string option \<Rightarrow> evidence \<Rightarrow> dialog_choice \<Rightarrow> verify_trace" where
  "pressVerify userRole item choice =
     (case renderItem userRole item of
        InvalidEvidence \<Rightarrow> \<lparr>vt_alerts = [], verifyCalls = []\<rparr>
      | Rendered v \<Rightarrow>
          if verifyButton v then handleVerifyEvidence userRole (ev_id item) choice
          else \<lparr>vt_alerts = [], verifyCalls = []\<rparr>)"

subsection \<open>EvidenceStoreSecure (bundled in screens/SecurityDashboard.jsx)\<close>



subsection \<open>IncidentDetailScreen (bundled in screens/SecurityDashboard.jsx)\<close>
















section \<open>hooks/useIncidents.js\<close>

record ui_state =
  ui_incidents :: "incident list"
  ui_loading :: bool
  ui_error :: "string option"
  ui_alerts :: "alert list"

datatype fetch_event = FetchStarted | FetchSettled "incident list awaited"

text \<open>\<^verbatim>\<open>fetchIncidents\<close> of the hook, split at its \<^verbatim>\<open>await getIncidents()\<close>.\<close>

fun ui_step :: "ui_state \<Rightarrow> fetch_event \<Rightarrow> ui_state" where
  "ui_step s FetchStarted = s\<lparr>ui_loading := True, ui_error := None\<rparr>"
| "ui_step s (FetchSettled (Returned (ApiOk data))) = s\<lparr>ui_incidents := data, ui_loading := False\<rparr>"
| "ui_step s (FetchSettled (Returned (ApiFail m))) =
     s\<lparr>ui_error := Some (or_else m ''Failed to fetch incidents.''),
       ui_alerts := ui_alerts s @ [Alert ''Error'' (or_else m ''Failed to fetch incidents.'')],
       ui_loading := False\<rparr>"
| "ui_step s (FetchSettled (Threw e)) =
     s\<lparr>ui_error := Some ''An unexpected error occurred while fetching incidents.'',
       ui_alerts := ui_alerts s @ [Alert ''Error'' ''An unexpected error occurred while fetching incidents.''],
       ui_loading := False\<rparr>"

definition ui_run :: "ui_state \<Rightarrow> fetch_event list \<Rightarrow> ui_state" where
  "ui_run s evs = foldl ui_step s evs"

text \<open>Refresh A starts, refresh B starts, B's response arrives, then A's.\<close>

definition overlapping :: "incident list \<Rightarrow> incident list \<Rightarrow> fetch_event list" where
  "overlapping dataA dataB =
     [FetchStarted, FetchStarted, FetchSettled (Returned (ApiOk dataB)), FetchSettled (Returned (ApiOk dataA))]"

section \<open>AdminDashboardScreen (bundled in screens/Acknowledgement.jsx)\<close>

record ad_state =
  ad_incidents :: "incident list"
  ad_actionLoading :: "int \<Rightarrow> bool option"
  ad_alerts :: "alert list"
  ad_requests :: "ack_request list"

definition actionLabel :: "incident \<Rightarrow> string" where
  "actionLabel item = (if isAcknowledged item then ''Revoke'' else ''Acknowledge'')"

text \<open>\<^verbatim>\<open>disabled={!!actionLoading[item.id]}\<close>\<close>

definition actionDisabled :: "ad_state \<Rightarrow> incident \<Rightarrow> bool" where
  "actionDisabled s item = (ad_actionLoading s (inc_id item) = Some True)"

text \<open>\<^verbatim>\<open>fetchIncidents\<close> of this screen, once \<^verbatim>\<open>getIncidents()\<close> has settled.\<close>

definition ad_fetchIncidents :: "incident list awaited \<Rightarrow> ad_state \<Rightarrow> ad_state" where
  "ad_fetchIncidents response s =
     (case response of
        Returned (ApiOk data) \<Rightarrow> s\<lparr>ad_incidents := data\<rparr>
      | Returned (ApiFail m) \<Rightarrow>
          s\<lparr>ad_alerts := ad_alerts s @ [Alert ''Error'' (or_else m ''Failed to fetch incidents.'')]\<rparr>
      | Threw e \<Rightarrow> s)"

text \<open>
  \<^verbatim>\<open>acknowledge(incidentId)\<close> of the admin dashboard. \<open>backend\<close> answers the acknowledge
  request and \<open>refreshed\<close> is what the following \<^verbatim>\<open>getIncidents()\<close> gives; every request
  that is sent is appended to \<open>ad_requests\<close>. \<^verbatim>\<open>acknowledgeIncident\<close> always returns a
  result object, so the \<^verbatim>\<open>catch\<close> block of this function has no case here.
\<close>

definition ad_acknowledge ::
  "string \<Rightarrow> (ack_request \<Rightarrow> fetch_outcome) \<Rightarrow> incident list awaited \<Rightarrow> int \<Rightarrow> ad_state \<Rightarrow> ad_state" where
  "ad_acknowledge base backend refreshed incidentId s =
     (let s1 = s\<lparr>ad_actionLoading := (ad_actionLoading s)(incidentId := Some True)\<rparr>;
          (req, res) = acknowledgeIncident base incidentId backend;
          s2 = s1\<lparr>ad_requests := ad_requests s1 @ [req]\<rparr>;
          s3 = (case res of
                  ApiOk d \<Rightarrow>
                    (let s' = ad_fetchIncidents refreshed s2
                     in s'\<lparr>ad_alerts := ad_alerts s' @ [Alert ''Success'' ''Incident acknowledged'']\<rparr>)
                | ApiFail m \<Rightarrow>
                    s2\<lparr>ad_alerts := ad_alerts s2 @ [Alert ''Error'' (or_else m ''Failed to acknowledge incident'')]\<rparr>)
      in s3\<lparr>ad_actionLoading := (ad_actionLoading s3)(incidentId := Some False)\<rparr>)"

text \<open>A press on the action button of \<open>item\<close>, whatever its label.\<close>

definition pressAction ::
  "string \<Rightarrow> (ack_request \<Rightarrow> fetch_outcome) \<Rightarrow> incident list awaited \<Rightarrow> ad_state \<Rightarrow> incident \<Rightarrow> ad_state" where
  "pressAction base backend refreshed s item =
     (if actionDisabled s item then s else ad_acknowledge base backend refreshed (inc_id item) s)"

text \<open>A series of presses, each with the answers the backend gives to it.\<close>

fun ad_run ::
  "string \<Rightarrow> ad_state \<Rightarrow> ((ack_request \<Rightarrow> fetch_outcome) \<times> incident list awaited \<times> incident) list \<Rightarrow> ad_state" where
  "ad_run base s [] = s"
| "ad_run base s ((backend, refreshed, item) # presses) =
     ad_run base (pressAction base backend refreshed s item) presses"

section \<open>Example data\<close>

definition pending_report :: incident where
  "pending_report =
     \<lparr>inc_id = 42, camera_id = Some 3, description = Some ''[VIEWER REPORT] broken window'',
      acknowledged = Some False, status = Some ''pending'',
      assigned_user_id = None, assigned_user = None\<rparr>"

definition officer :: user where
  "officer = \<lparr>user_id = 7, username = ''sam'', role = ''security''\<rparr>"

definition sd_mounted :: "incident list \<Rightarrow> sd_state" where
  "sd_mounted incs =
     \<lparr>incidents = incs, acknowledgedIncidentsRef = {}, actionLoading = (\<lambda>i. None), alerts = [],
      loadingIncidents = False\<rparr>"

definition sdn_mounted :: "user option \<Rightarrow> incident list \<Rightarrow> incident list \<Rightarrow> sdn_state" where
  "sdn_mounted profile incs sos =
     \<lparr>sdn_incidents = incs, sosAlerts = sos, userProfile = profile, sdn_ref = {},
      sdn_actionLoading = (\<lambda>i. None), sdn_alerts = []\<rparr>"

definition unreachable :: "ack_request \<Rightarrow> fetch_outcome" where
  "unreachable req = NetworkError ''Network request failed''"

definition acked_report :: incident where
  "acked_report =
     \<lparr>inc_id = 43, camera_id = Some 3, description = Some ''[VIEWER REPORT] noise'',
      acknowledged = Some True, status = Some ''acknowledged'',
      assigned_user_id = Some 7, assigned_user = Some officer\<rparr>"

definition assigned_report :: incident where
  "assigned_report =
     \<lparr>inc_id = 44, camera_id = Some 3, description = Some ''[VIEWER REPORT] smoke in hall'',
      acknowledged = Some False, status = Some ''pending'',
      assigned_user_id = Some 7, assigned_user = None\<rparr>"

definition viewer_ann :: user where
  "viewer_ann = \<lparr>user_id = 5, username = ''ann'', role = ''viewer''\<rparr>"

definition report_on_ai_camera :: incident where
  "report_on_ai_camera =
     \<lparr>inc_id = 50, camera_id = Some 30, description = Some ''[VIEWER REPORT] fight'',
      acknowledged = Some False, status = Some ''pending'',
      assigned_user_id = None, assigned_user = None\<rparr>"

definition foreign_incident :: incident where
  "foreign_incident =
     \<lparr>inc_id = 51, camera_id = Some 2, description = Some ''motion at door'',
      acknowledged = Some False, status = Some ''pending'',
      assigned_user_id = None, assigned_user = None\<rparr>"

definition own_sos :: incident where
  "own_sos =
     \<lparr>inc_id = 52, camera_id = Some 1, description = Some ''[SOS ALERT] help User: ann'',
      acknowledged = Some False, status = Some ''pending'',
      assigned_user_id = None, assigned_user = None\<rparr>"

definition incident_on_camera :: incident where
  "incident_on_camera =
     \<lparr>inc_id = 60, camera_id = Some 4, description = Some ''person fell'',
      acknowledged = Some False, status = Some ''pending'',
      assigned_user_id = None, assigned_user = None\<rparr>"

text \<open>Three incidents are selected.\<close>

definition three_selected :: "(int \<times> bool) list" where
  "three_selected = [(1, True), (2, True), (3, True)]"

text \<open>Backends for \<^verbatim>\<open>notifyIncident\<close> that refuse one incident and accept the others.\<close>

definition notify_refusing :: "int \<Rightarrow> int \<Rightarrow> int list \<Rightarrow> unit awaited" where
  "notify_refusing bad incId userIds =
     (if incId = bad then Returned (ApiFail (Some ''Incident not found'')) else Returned (ApiOk ()))"

definition unanchored_evidence :: evidence where
  "unanchored_evidence =
     \<lparr>ev_id = 9, ev_incident_id = Some 42, file_path = Some ''camera_3/snapshot_17.jpg'',
      blockchain_tx_hash = None, verification_status = Some ''PENDING'', tamper_status = None\<rparr>"



definition ad_mounted :: "incident list \<Rightarrow> ad_state" where
  "ad_mounted incs =
     \<lparr>ad_incidents = incs, ad_actionLoading = (\<lambda>i. None), ad_alerts = [], ad_requests = []\<rparr>"

definition accepting :: "ack_request \<Rightarrow> fetch_outcome" where
  "accepting req = Response True None"


text \<open>A backend for \<^verbatim>\<open>notifyIncident\<close> that rejects every call.\<close>

definition notify_down :: "int \<Rightarrow> int list \<Rightarrow> unit awaited" where
  "notify_down incId userIds = Threw ''Network request failed''"

section \<open>Properties of the acknowledgement updates\<close>

lemma mergeAcknowledged_consistent:
  "list_all consistent data \<Longrightarrow> list_all consistent (fst (mergeAcknowledged ref data))"
  by (induction data arbitrary: ref) (auto simp: consistent_def Let_def split_beta)

lemma markAcknowledged_consistent:
  "list_all consistent prev \<Longrightarrow> list_all consistent (markAcknowledged i prev)"
  by (induction prev) (auto simp: markAcknowledged_def consistent_def)

lemma revertAcknowledged_consistent:
  "list_all consistent prev \<Longrightarrow> list_all consistent (revertAcknowledged i prev)"
  by (induction prev) (auto simp: revertAcknowledged_def consistent_def)

lemma revert_mark: "revertAcknowledged i (markAcknowledged i xs) = revertAcknowledged i xs"
  by (induction xs) (auto simp: revertAcknowledged_def markAcknowledged_def)

lemma revert_pending:
  "\<forall>inc\<in>set xs. inc_id inc = i \<longrightarrow> pending inc \<Longrightarrow> revertAcknowledged i xs = xs"
  by (induction xs) (auto simp: revertAcknowledged_def pending_def)

lemma revertFunc_updateFunc: "revertFunc i (updateFunc p i xs) = revertFunc i xs"
  by (induction xs) (auto simp: revertFunc_def updateFunc_def)

lemma revertFunc_fields:
  "\<forall>inc\<in>set xs. inc_id inc = i \<longrightarrow> pending inc \<Longrightarrow>
     map status (revertFunc i xs) = map status xs \<and> map acknowledged (revertFunc i xs) = map acknowledged xs"
  by (induction xs) (auto simp: revertFunc_def pending_def)

lemma revertFunc_target:
  "list_all (\<lambda>inc. inc_id inc = i \<longrightarrow>
       acknowledged inc = Some False \<and> status inc = Some ''pending'' \<and>
       assigned_user_id inc = None \<and> assigned_user inc = None) (revertFunc i xs)"
  by (induction xs) (simp_all add: revertFunc_def)

lemma failed_result:
  "failed_attempt (backend \<lparr>req_incident = i, req_acknowledged = True\<rparr>) \<Longrightarrow>
   \<exists>m. snd (acknowledgeIncident base i backend) = ApiFail (Some m)"
  by (cases "backend \<lparr>req_incident = i, req_acknowledged = True\<rparr>")
     (auto simp: acknowledgeIncident_def acknowledgeIncidentWithStatus_def Let_def)

lemma awaited_cases:
  obtains (ok) d where "r = Returned (ApiOk d)" | (fail) m where "r = Returned (ApiFail m)"
        | (threw) e where "r = Threw e"
  by (cases r) (metis api_result.exhaust, simp)

lemma mergeAcknowledged_marked:
  "list_all (\<lambda>inc. inc_id inc \<in> ref \<longrightarrow> consistent inc) (fst (mergeAcknowledged ref incs))"
proof (induction incs arbitrary: ref)
  case Nil
  show ?case by simp
next
  case (Cons inc rest)
  have weaker: "list_all (\<lambda>x. inc_id x \<in> insert (inc_id inc) ref \<longrightarrow> consistent x) xs
      \<Longrightarrow> list_all (\<lambda>x. inc_id x \<in> ref \<longrightarrow> consistent x) xs" for xs
    by (induction xs) simp_all
  show ?case
    using Cons.IH [of ref] weaker [OF Cons.IH [of "insert (inc_id inc) ref"]]
    by (simp add: Let_def split_beta consistent_def)
qed

section \<open>Rollback of a failed acknowledgement\<close>

text \<open>
  C1. When an acknowledge attempt fails, either because the request is rejected (network
  error, body that is not JSON) or because the response is not a success, the client
  writes \<^verbatim>\<open>acknowledged = false, status = 'pending'\<close> back into the incident, and the
  tabbed security dashboard also clears the assignment it had stamped. Every incident
  with another id is left as it was. So for an incident that was pending before the call
  the fields \<open>status\<close> and \<open>acknowledged\<close> after the failed call equal their values before
  it, and on SecurityDashboardScreen the whole list does. Both screens show the failure
  in an alert. \<^verbatim>\<open>acknowledgeIncident\<close> turns a rejected request into a failure result, so
  both kinds of failure reach the screens as a result without \<^verbatim>\<open>success\<close>;
  SecurityDashboardScreen reverts in its \<^verbatim>\<open>catch\<close> block as well.
\<close>

theorem acknowledge_rollback:
  assumes failed: "failed_attempt (backend \<lparr>req_incident = i, req_acknowledged = True\<rparr>)"
  shows "incidents (acknowledge_call base backend i s) = revertAcknowledged i (incidents s)
       \<and> incidents (acknowledge i (Threw e) s) = revertAcknowledged i (incidents s)
       \<and> ((\<forall>inc\<in>set (incidents s). inc_id inc = i \<longrightarrow> pending inc) \<longrightarrow>
            incidents (acknowledge_call base backend i s) = incidents s)
       \<and> sdn_incidents (handleAcknowledge base backend i False s') = revertFunc i (sdn_incidents s')
       \<and> sosAlerts (handleAcknowledge base backend i True s') = revertFunc i (sosAlerts s')
       \<and> ((\<forall>inc\<in>set (sdn_incidents s'). inc_id inc = i \<longrightarrow> pending inc) \<longrightarrow>
            map status (sdn_incidents (handleAcknowledge base backend i False s')) = map status (sdn_incidents s')
          \<and> map acknowledged (sdn_incidents (handleAcknowledge base backend i False s')) = map acknowledged (sdn_incidents s'))
       \<and> list_all (\<lambda>inc. inc_id inc = i \<longrightarrow>
              acknowledged inc = Some False \<and> status inc = Some ''pending'' \<and>
              assigned_user_id inc = None \<and> assigned_user inc = None)
            (sdn_incidents (handleAcknowledge base backend i False s'))
       \<and> (\<exists>m. last (alerts (acknowledge_call base backend i s)) = Alert ''Error'' m)
       \<and> (\<exists>m. last (sdn_alerts (handleAcknowledge base backend i False s')) = Alert ''Error'' m)"
proof -
  from failed obtain m where res: "snd (acknowledgeIncident base i backend) = ApiFail (Some m)"
    using failed_result by blast
  have a: "incidents (acknowledge_call base backend i s) = revertAcknowledged i (incidents s)"
    by (simp add: acknowledge_call_def acknowledge_def acknowledge_end_def acknowledge_begin_def res revert_mark)
  have b: "incidents (acknowledge i (Threw e) s) = revertAcknowledged i (incidents s)"
    by (simp add: acknowledge_def acknowledge_end_def acknowledge_begin_def revert_mark)
  have c: "sdn_incidents (handleAcknowledge base backend i False s') = revertFunc i (sdn_incidents s')"
    by (simp add: handleAcknowledge_def handleAcknowledge_end_def handleAcknowledge_begin_def
        apply_to_list_def res Let_def revertFunc_updateFunc)
  have d: "sosAlerts (handleAcknowledge base backend i True s') = revertFunc i (sosAlerts s')"
    by (simp add: handleAcknowledge_def handleAcknowledge_end_def handleAcknowledge_begin_def
        apply_to_list_def res Let_def revertFunc_updateFunc)
  have e: "\<exists>m. last (alerts (acknowledge_call base backend i s)) = Alert ''Error'' m"
    by (simp add: acknowledge_call_def acknowledge_def acknowledge_end_def acknowledge_begin_def res)
  have f: "\<exists>m. last (sdn_alerts (handleAcknowledge base backend i False s')) = Alert ''Error'' m"
    by (simp add: handleAcknowledge_def handleAcknowledge_end_def handleAcknowledge_begin_def
        apply_to_list_def res Let_def)
  show ?thesis
    using a b c d e f revert_pending [of "incidents s" i] revertFunc_fields [of "sdn_incidents s'" i]
      revertFunc_target [of i "sdn_incidents s'"]
    by simp
qed

theorem acknowledge_rollback_witness:
  "failed_attempt (unreachable \<lparr>req_incident = 42, req_acknowledged = True\<rparr>)
   \<and> incidents (sd_mounted [pending_report]) = [pending_report]
   \<and> sdn_incidents (sdn_mounted (Some officer) [pending_report] []) = [pending_report]
   \<and> pending pending_report
   \<and> incidents (acknowledge_call ''http://10.0.2.2:8000'' unreachable 42 (sd_mounted [pending_report]))
       = incidents (sd_mounted [pending_report])
   \<and> map status (sdn_incidents (handleAcknowledge ''http://10.0.2.2:8000'' unreachable 42 False
         (sdn_mounted (Some officer) [pending_report] [])))
       = map status (sdn_incidents (sdn_mounted (Some officer) [pending_report] []))
   \<and> map acknowledged (sdn_incidents (handleAcknowledge ''http://10.0.2.2:8000'' unreachable 42 False
         (sdn_mounted (Some officer) [pending_report] [])))
       = map acknowledged (sdn_incidents (sdn_mounted (Some officer) [pending_report] []))"
proof -
  have h: "failed_attempt (unreachable \<lparr>req_incident = 42, req_acknowledged = True\<rparr>)"
    by (simp add: unreachable_def)
  have p: "\<forall>inc\<in>set (incidents (sd_mounted [pending_report])). inc_id inc = 42 \<longrightarrow> pending inc"
    by (simp add: sd_mounted_def pending_report_def pending_def)
  have q: "\<forall>inc\<in>set (sdn_incidents (sdn_mounted (Some officer) [pending_report] [])).
             inc_id inc = 42 \<longrightarrow> pending inc"
    by (simp add: sdn_mounted_def pending_report_def pending_def)
  have r: "incidents (sd_mounted [pending_report]) = [pending_report]
      \<and> sdn_incidents (sdn_mounted (Some officer) [pending_report] []) = [pending_report]
      \<and> pending pending_report"
    by (simp add: sd_mounted_def sdn_mounted_def pending_report_def pending_def)
  show ?thesis
    using h p q r
      acknowledge_rollback [of unreachable 42 "''http://10.0.2.2:8000''" "sd_mounted [pending_report]"
        "''timeout''" "sdn_mounted (Some officer) [pending_report] []"]
    by blast
qed

text \<open>
  C8. Every local update of an incident keeps \<^verbatim>\<open>status === 'acknowledged'\<close> equivalent to
  \<^verbatim>\<open>acknowledged === true\<close>: the optimistic acknowledgement and the rollback write both
  fields together, so the incident they touch satisfies the invariant whatever it was
  before and the others are unchanged; the merge of a list refresh overwrites both fields
  of an incident recorded as acknowledged and passes the other incidents of the response
  through unchanged.
\<close>

theorem status_flag_consistent:
  "(list_all consistent (incidents s) \<longrightarrow>
      list_all consistent (incidents (acknowledge_begin i s)) \<and>
      list_all consistent (incidents (acknowledge_end i res s)) \<and>
      list_all consistent (incidents (acknowledge i res s)))
   \<and> (list_all consistent data \<longrightarrow>
        list_all consistent (incidents (fetchIncidents (Returned (ApiOk data)) s)))
   \<and> (list_all consistent (incidents s) \<longrightarrow>
        list_all consistent (incidents (fetchIncidents (Returned (ApiFail m)) s)) \<and>
        list_all consistent (incidents (fetchIncidents (Threw e) s)))
   \<and> list_all (\<lambda>inc. inc_id inc = i \<longrightarrow> consistent inc) (markAcknowledged i incs)
   \<and> list_all (\<lambda>inc. inc_id inc = i \<longrightarrow> consistent inc) (revertAcknowledged i incs)
   \<and> list_all (\<lambda>inc. inc_id inc \<in> ref \<longrightarrow> consistent inc) (fst (mergeAcknowledged ref incs))
   \<and> (list_all consistent incs \<longrightarrow>
        list_all consistent (updateFunc profile i incs) \<and> list_all consistent (revertFunc i incs))"
proof -
  have beg: "list_all consistent (incidents s) \<Longrightarrow> list_all consistent (incidents (acknowledge_begin i s))" for s
    by (simp add: acknowledge_begin_def markAcknowledged_consistent)
  have fin: "list_all consistent (incidents s) \<Longrightarrow> list_all consistent (incidents (acknowledge_end i res s))" for s
    by (cases res rule: awaited_cases)
       (simp_all add: acknowledge_end_def revertAcknowledged_consistent)
  have both: "list_all consistent (incidents s) \<Longrightarrow> list_all consistent (incidents (acknowledge i res s))"
    unfolding acknowledge_def by (rule fin) (rule beg)
  have fetched: "list_all consistent data \<Longrightarrow>
      list_all consistent (incidents (fetchIncidents (Returned (ApiOk data)) s))"
    using mergeAcknowledged_consistent [of data "acknowledgedIncidentsRef s"]
    by (simp add: fetchIncidents_def split_beta)
  have kept: "list_all consistent (incidents s) \<Longrightarrow>
      list_all consistent (incidents (fetchIncidents (Returned (ApiFail m)) s)) \<and>
      list_all consistent (incidents (fetchIncidents (Threw e) s))"
    by (simp add: fetchIncidents_def)
  have mark: "list_all (\<lambda>inc. inc_id inc = i \<longrightarrow> consistent inc) (markAcknowledged i incs)"
    by (induction incs) (simp_all add: markAcknowledged_def consistent_def)
  have rev: "list_all (\<lambda>inc. inc_id inc = i \<longrightarrow> consistent inc) (revertAcknowledged i incs)"
    by (induction incs) (simp_all add: revertAcknowledged_def consistent_def)
  have merged: "list_all (\<lambda>inc. inc_id inc \<in> ref \<longrightarrow> consistent inc) (fst (mergeAcknowledged ref incs))"
    by (rule mergeAcknowledged_marked)
  have new: "list_all consistent incs \<Longrightarrow>
      list_all consistent (updateFunc profile i incs) \<and> list_all consistent (revertFunc i incs)"
    by (induction incs) (simp_all add: updateFunc_def revertFunc_def consistent_def)
  show ?thesis
    using beg [of s] fin [of s] both fetched kept mark rev merged new by blast
qed

theorem status_flag_consistent_witness:
  "list_all consistent (incidents (sd_mounted [pending_report, acked_report]))
   \<and> list_all consistent [pending_report, acked_report]
   \<and> list_all consistent (incidents (acknowledge 42 (Returned (ApiFail None)) (sd_mounted [pending_report, acked_report])))
   \<and> list_all consistent (incidents (fetchIncidents (Returned (ApiOk [pending_report, acked_report]))
         (sd_mounted [pending_report, acked_report])))
   \<and> list_all consistent (updateFunc (Some officer) 42 [pending_report, acked_report])
   \<and> list_all consistent (revertFunc 42 [pending_report, acked_report])"
proof -
  have h: "list_all consistent [pending_report, acked_report]"
    by (simp add: consistent_def pending_report_def acked_report_def)
  have h': "list_all consistent (incidents (sd_mounted [pending_report, acked_report]))"
    using h by (simp add: sd_mounted_def)
  show ?thesis
    using h h'
      status_flag_consistent [of "sd_mounted [pending_report, acked_report]" 42
        "Returned (ApiFail None)" "[pending_report, acked_report]" None "''x''"
        "[pending_report, acked_report]" "{}" "Some officer"]
    by blast
qed

section \<open>The tabs of the security dashboard\<close>

lemma count_list_filter:
  "count_list (filter P xs) x = (if P x then count_list xs x else 0)"
  by (induction xs) auto

text \<open>
  C2. For any incident list and any profile, the union of the three tabs of the security
  dashboard (descriptions starting with \<^verbatim>\<open>[VIEWER REPORT]\<close>, descriptions starting with
  \<^verbatim>\<open>[SOS ALERT]\<close>, incidents assigned to the profile) is the set of incidents that
  satisfy at least one of the three tests. For a loaded profile with a truthy id the third
  test is \<^verbatim>\<open>assigned_user_id\<close> being the actor's id. Each tab holds every incident
  that passes its test as often as the list does, so an incident that passes two tests is
  in both tabs.
\<close>

theorem security_buckets:
  "set (viewerReports incs) \<union> set (getSOSAlerts incs) \<union> set (assignedIncidents profile incs)
     = {i \<in> set incs. isViewerReport i \<or> isSOSAlert i \<or> isAssignedToMe profile i}
   \<and> (truthy_num (user_id u) \<longrightarrow>
        isAssignedToMe (Some u) i = (assigned_user_id i = Some (user_id u)))
   \<and> count_list (viewerReports incs) i = (if isViewerReport i then count_list incs i else 0)
   \<and> count_list (getSOSAlerts incs) i = (if isSOSAlert i then count_list incs i else 0)
   \<and> count_list (assignedIncidents profile incs) i
       = (if isAssignedToMe profile i then count_list incs i else 0)
   \<and> (i \<in> set incs \<and> isViewerReport i \<and> isAssignedToMe profile i \<longrightarrow>
        i \<in> set (viewerReports incs) \<and> i \<in> set (assignedIncidents profile incs))
   \<and> (i \<in> set incs \<and> isSOSAlert i \<and> isAssignedToMe profile i \<longrightarrow>
        i \<in> set (getSOSAlerts incs) \<and> i \<in> set (assignedIncidents profile incs))"
proof -
  have union: "set (viewerReports incs) \<union> set (getSOSAlerts incs) \<union> set (assignedIncidents profile incs)
     = {i \<in> set incs. isViewerReport i \<or> isSOSAlert i \<or> isAssignedToMe profile i}"
    unfolding viewerReports_def getSOSAlerts_def assignedIncidents_def by auto
  have mine: "truthy_num (user_id u) \<longrightarrow>
        isAssignedToMe (Some u) i = (assigned_user_id i = Some (user_id u))"
    by (simp add: isAssignedToMe_def)
  have counts:
    "count_list (viewerReports incs) i = (if isViewerReport i then count_list incs i else 0)"
    "count_list (getSOSAlerts incs) i = (if isSOSAlert i then count_list incs i else 0)"
    "count_list (assignedIncidents profile incs) i
       = (if isAssignedToMe profile i then count_list incs i else 0)"
    unfolding viewerReports_def getSOSAlerts_def assignedIncidents_def
    by (rule count_list_filter)+
  have both: "i \<in> set incs \<and> isViewerReport i \<and> isAssignedToMe profile i \<longrightarrow>
        i \<in> set (viewerReports incs) \<and> i \<in> set (assignedIncidents profile incs)"
    "i \<in> set incs \<and> isSOSAlert i \<and> isAssignedToMe profile i \<longrightarrow>
        i \<in> set (getSOSAlerts incs) \<and> i \<in> set (assignedIncidents profile incs)"
    unfolding viewerReports_def getSOSAlerts_def assignedIncidents_def by simp_all
  show ?thesis
    using union mine counts both by (intro conjI)
qed

theorem security_buckets_witness:
  "truthy_num (user_id officer)
   \<and> assigned_report \<in> set [pending_report, assigned_report]
   \<and> isViewerReport assigned_report
   \<and> isAssignedToMe (Some officer) assigned_report
   \<and> assigned_user_id assigned_report = Some (user_id officer)
   \<and> assigned_report \<in> set (viewerReports [pending_report, assigned_report])
   \<and> assigned_report \<in> set (assignedIncidents (Some officer) [pending_report, assigned_report])"
proof -
  have t: "truthy_num (user_id officer)"
    by (simp add: truthy_num_def officer_def)
  have a: "assigned_user_id assigned_report = Some (user_id officer)"
    by (simp add: assigned_report_def officer_def)
  have m: "assigned_report \<in> set [pending_report, assigned_report]"
    by simp
  have v: "isViewerReport assigned_report"
    by (simp add: isViewerReport_def assigned_report_def)
  show ?thesis
    using t a m v
      security_buckets [of "[pending_report, assigned_report]" "Some officer" officer assigned_report]
    by blast
qed

section \<open>What a viewer sees\<close>

lemma startsWith_tags_disjoint:
  assumes "startsWith d ''[SOS ALERT]''"
  shows "\<not> startsWith d ''[VIEWER REPORT]''"
proof (cases d)
  case Nil
  with assms show ?thesis by simp
next
  case (Cons c cs)
  with assms show ?thesis by (cases cs) auto
qed

lemma sos_not_viewer_report: "isSOSAlert i \<Longrightarrow> \<not> isViewerReport i"
  by (auto simp: isSOSAlert_def isViewerReport_def split: option.splits
      dest: startsWith_tags_disjoint)

lemma keepForViewer_eq: "keepForViewer profile = (\<lambda>i. \<not> isViewerReport i)"
proof (rule ext)
  fix i
  show "keepForViewer profile i = (\<not> isViewerReport i)"
    using sos_not_viewer_report [of i] by (auto simp: keepForViewer_def)
qed

text \<open>
  C3, as the code has it. The two viewer dashboards filter differently.
  ViewerDashboardScreen keeps exactly the incidents whose camera the viewer owns or whose
  camera id is at least 29, and does not look at the description. ViewerDashboardNew keeps
  exactly the incidents whose description does not start with \<^verbatim>\<open>[VIEWER REPORT]\<close>, and
  does not look at the camera; in particular it keeps every \<^verbatim>\<open>[SOS ALERT]\<close> incident.
\<close>

theorem viewer_filters:
  "filteredIncidents usr cameras allIncidents
     = filter (\<lambda>inc. Number (camera_id inc) \<in> ownedCameraIds usr cameras
                      \<or> Number (camera_id inc) \<ge> 29) allIncidents
   \<and> set (filteredIncidents usr cameras allIncidents)
     = {inc \<in> set allIncidents. Number (camera_id inc) \<in> ownedCameraIds usr cameras
                                  \<or> Number (camera_id inc) \<ge> 29}
   \<and> filteredList profile newList = filter (\<lambda>i. \<not> isViewerReport i) newList
   \<and> set (filteredList profile newList) = {i \<in> set newList. \<not> isViewerReport i}
   \<and> (i \<in> set newList \<and> isSOSAlert i \<longrightarrow> i \<in> set (filteredList profile newList))"
proof -
  have a: "filteredIncidents usr cameras allIncidents
     = filter (\<lambda>inc. Number (camera_id inc) \<in> ownedCameraIds usr cameras
                      \<or> Number (camera_id inc) \<ge> 29) allIncidents"
    by (simp add: filteredIncidents_def Let_def)
  have b: "filteredList profile newList = filter (\<lambda>i. \<not> isViewerReport i) newList"
    by (simp add: filteredList_def keepForViewer_eq)
  have c: "i \<in> set newList \<and> isSOSAlert i \<longrightarrow> i \<in> set (filteredList profile newList)"
    using sos_not_viewer_report [of i] by (simp add: b)
  show ?thesis
    using c by (simp add: a b)
qed

theorem viewer_filters_witness:
  "own_sos \<in> set [foreign_incident, own_sos, report_on_ai_camera]
   \<and> isSOSAlert own_sos
   \<and> own_sos \<in> set (filteredList (Some viewer_ann) [foreign_incident, own_sos, report_on_ai_camera])"
proof -
  have m: "own_sos \<in> set [foreign_incident, own_sos, report_on_ai_camera]"
    by simp
  have s: "isSOSAlert own_sos"
    by (simp add: isSOSAlert_def own_sos_def)
  show ?thesis
    using m s
      viewer_filters [of viewer_ann "[]" "[]" "Some viewer_ann"
        "[foreign_incident, own_sos, report_on_ai_camera]" own_sos]
    by blast
qed

text \<open>
  C3 as stated fails on both screens. On ViewerDashboardScreen a \<^verbatim>\<open>[VIEWER REPORT]\<close>
  incident on camera 30 is shown, and the viewer's own SOS alert on camera 1, which the
  viewer does not own, is not. On ViewerDashboardNew an incident on camera 2, which the
  viewer does not own and which is below 29, is shown.
\<close>

theorem viewer_filter_counterexample:
  "isViewerReport report_on_ai_camera
   \<and> filteredIncidents viewer_ann [] [report_on_ai_camera] = [report_on_ai_camera]
   \<and> isSOSAlert own_sos
   \<and> description own_sos = Some ''[SOS ALERT] help User: ann''
   \<and> includes_str ''[SOS ALERT] help User: ann'' (''User: '' @ username viewer_ann)
   \<and> filteredIncidents viewer_ann [] [own_sos] = []
   \<and> Number (camera_id foreign_incident) \<notin> ownedCameraIds viewer_ann []
   \<and> Number (camera_id foreign_incident) < 29
   \<and> filteredList (Some viewer_ann) [foreign_incident] = [foreign_incident]"
  by (simp add: isViewerReport_def isSOSAlert_def report_on_ai_camera_def own_sos_def
      foreign_incident_def viewer_ann_def filteredIncidents_def ownedCameraIds_def Number_def
      filteredList_def keepForViewer_def currentUsername_def truthy_str_def)

section \<open>Overlapping refreshes\<close>

text \<open>
  C9, as the code has it. No fetch carries a sequence number and no response is
  discarded: each response that arrives is applied. When refresh A starts, refresh B starts,
  B's response arrives and then A's, the list shown at the end is A's data: the response
  that arrives last wins. On SecurityDashboardScreen it is A's data merged with the
  acknowledgements recorded so far.
\<close>

theorem last_response_wins:
  "ui_incidents (ui_run s (overlapping dataA dataB)) = dataA
   \<and> incidents (fetchIncidents (Returned (ApiOk dataA)) (fetchIncidents (Returned (ApiOk dataB)) sd))
     = fst (mergeAcknowledged
              (acknowledgedIncidentsRef (fetchIncidents (Returned (ApiOk dataB)) sd)) dataA)
   \<and> map inc_id (incidents (fetchIncidents (Returned (ApiOk dataA)) (fetchIncidents (Returned (ApiOk dataB)) sd)))
     = map inc_id dataA"
proof -
  have ids: "map inc_id (fst (mergeAcknowledged ref xs)) = map inc_id xs" for ref xs
    by (induction xs arbitrary: ref) (simp_all add: Let_def split_beta)
  have a: "ui_incidents (ui_run s (overlapping dataA dataB)) = dataA"
    by (simp add: ui_run_def overlapping_def)
  have b: "incidents (fetchIncidents (Returned (ApiOk dataA)) t)
     = fst (mergeAcknowledged (acknowledgedIncidentsRef t) dataA)" for t
    by (simp add: fetchIncidents_def split_beta)
  show ?thesis
    by (simp add: a b ids)
qed

text \<open>
  C9 as stated fails: with A's data the pending report and B's data the same report
  acknowledged, the hook shows A's data at the end, not B's.
\<close>

theorem stale_response_counterexample:
  "ui_incidents
     (ui_run \<lparr>ui_incidents = [], ui_loading = False, ui_error = None, ui_alerts = []\<rparr>
        (overlapping [pending_report] [acked_report]))
   = [pending_report]
   \<and> [pending_report] \<noteq> [acked_report]"
  by (simp add: ui_run_def overlapping_def pending_report_def acked_report_def)

section \<open>The SOS latch\<close>

text \<open>
  C4. The handler of "Send SOS" on ViewerDashboardScreen sets the latch before it calls
  \<^verbatim>\<open>createIncident\<close>, and once the latch is set the SOS button is no longer drawn: a tap
  and its confirmation followed by another tap issue one call. But the handler never
  tests the latch. When the button is tapped twice before the first dialog is answered,
  two dialogs are open, and "Send SOS" in both issues two \<^verbatim>\<open>createIncident\<close> calls
  although the latch was set by the first. On ViewerDashboardNew, \<^verbatim>\<open>handleSOS\<close> has no
  latch and two presses of "Send SOS Alert" issue two \<^verbatim>\<open>sendSOSAlert\<close> calls.
\<close>

theorem sos_latch_not_tested:
  "sosSentRef (sendSOS_onPress s) \<and> sosDisabled (sendSOS_onPress s)
   \<and> \<not> sosButtonRendered (sendSOS_onPress s)
   \<and> length (createIncidentCalls
         (vd_run (vd_mounted [incident_on_camera]) [TapSOS, ConfirmSOS, TapSOS, ConfirmSOS])) = 1
   \<and> sosSentRef (vd_run (vd_mounted [incident_on_camera]) [TapSOS, TapSOS, ConfirmSOS])
   \<and> length (createIncidentCalls
         (vd_run (vd_mounted [incident_on_camera]) [TapSOS, TapSOS, ConfirmSOS])) = 1
   \<and> length (createIncidentCalls
         (vd_run (vd_mounted [incident_on_camera]) [TapSOS, TapSOS, ConfirmSOS, ConfirmSOS])) = 2
   \<and> length (sendSOSAlertCalls (vdn_run (vdn_mounted (Some viewer_ann))
         [OpenSOSModal, PressSendSOSAlert, PressSendSOSAlert])) = 2"
proof -
  have latch: "sosSentRef (sendSOS_onPress s) \<and> sosDisabled (sendSOS_onPress s)"
    by (simp add: sendSOS_onPress_def Let_def split: option.splits)
  have hidden: "\<not> sosButtonRendered (sendSOS_onPress s)"
    using latch by (simp add: sosButtonRendered_def)
  have runs:
    "length (createIncidentCalls
         (vd_run (vd_mounted [incident_on_camera]) [TapSOS, ConfirmSOS, TapSOS, ConfirmSOS])) = 1"
    "sosSentRef (vd_run (vd_mounted [incident_on_camera]) [TapSOS, TapSOS, ConfirmSOS])"
    "length (createIncidentCalls
         (vd_run (vd_mounted [incident_on_camera]) [TapSOS, TapSOS, ConfirmSOS])) = 1"
    "length (createIncidentCalls
         (vd_run (vd_mounted [incident_on_camera]) [TapSOS, TapSOS, ConfirmSOS, ConfirmSOS])) = 2"
    by (simp_all add: vd_run_def vd_mounted_def sosButtonRendered_def sendSOS_onPress_def
        firstCameraId_def incident_on_camera_def truthy_num_def Let_def)
  have new: "length (sendSOSAlertCalls (vdn_run (vdn_mounted (Some viewer_ann))
         [OpenSOSModal, PressSendSOSAlert, PressSendSOSAlert])) = 2"
    by (simp add: vdn_run_def vdn_mounted_def handleSOS_begin_def Let_def)
  show ?thesis
    using latch hidden runs new by blast
qed

section \<open>Bulk assignment\<close>

lemma filter_lengths: "length (filter P xs) + length (filter (\<lambda>x. \<not> P x) xs) = length xs"
  by (induction xs) simp_all

lemma filter_success_map:
  "length (filter success (map f xs)) = length (filter (\<lambda>x. success (f x)) xs)"
  by (induction xs) simp_all

lemma filter_none: "filter P xs = [] \<Longrightarrow> filter (\<lambda>x. \<not> P x) xs = xs"
  by (induction xs) (simp_all split: if_splits)

text \<open>
  C5, as the code has it. For a non-empty selection and a selected security user,
  \<^verbatim>\<open>submit\<close> makes one \<^verbatim>\<open>notifyIncident\<close> call per selected incident and splits the results
  into those with \<^verbatim>\<open>success\<close> and those without. Every selected incident is counted in
  exactly one of the two lists. The overall outcome is a success (the success alert, then
  the screen goes back) exactly when at least one call succeeded, and the success alert
  gives the number of succeeded and the number of failed calls. When no call succeeded,
  every result is a failure and the error alert shows the message of the first of them,
  the failure for the first selected incident, or "Unknown error" if it has none.
\<close>

theorem submit_partial_failure:
  assumes "selectedIds sel \<noteq> []" and "truthy_num u"
  shows "results (submit notify sel (Some u)) = map (notifyOne notify u) (selectedIds sel)
       \<and> succeeded (submit notify sel (Some u)) = filter success (results (submit notify sel (Some u)))
       \<and> failed (submit notify sel (Some u))
           = filter (\<lambda>r. \<not> success r) (results (submit notify sel (Some u)))
       \<and> length (succeeded (submit notify sel (Some u))) + length (failed (submit notify sel (Some u)))
           = length (selectedIds sel)
       \<and> length (succeeded (submit notify sel (Some u)))
           = length (filter (\<lambda>incId. success (notifyOne notify u incId)) (selectedIds sel))
       \<and> goBack (submit notify sel (Some u)) = (succeeded (submit notify sel (Some u)) \<noteq> [])
       \<and> (succeeded (submit notify sel (Some u)) \<noteq> [] \<longrightarrow>
            shown (submit notify sel (Some u))
              = AssignedAlert (length (succeeded (submit notify sel (Some u))))
                              (length (failed (submit notify sel (Some u)))))
       \<and> (succeeded (submit notify sel (Some u)) = [] \<longrightarrow>
            failed (submit notify sel (Some u)) = results (submit notify sel (Some u))
            \<and> (\<exists>incId rest m. selectedIds sel = incId # rest
                  \<and> notifyOne notify u incId = ApiFail m
                  \<and> shown (submit notify sel (Some u))
                      = AssignFailedAlert (or_else m ''Unknown error'')))"
proof -
  let ?rs = "map (notifyOne notify u) (selectedIds sel)"
  let ?out = "submit notify sel (Some u)"
  have r: "results ?out = ?rs"
    using assms by (simp add: submit_def Let_def)
  have ok: "succeeded ?out = filter success ?rs"
    using assms by (simp add: submit_def Let_def)
  have bad: "failed ?out = filter (\<lambda>r. \<not> success r) ?rs"
    using assms by (simp add: submit_def Let_def)
  have gb: "goBack ?out = (filter success ?rs \<noteq> [])"
    using assms by (simp add: submit_def Let_def)
  have shown_ok: "filter success ?rs \<noteq> [] \<Longrightarrow>
      shown ?out = AssignedAlert (length (filter success ?rs)) (length (filter (\<lambda>r. \<not> success r) ?rs))"
    using assms by (simp add: submit_def Let_def)
  have shown_bad: "failed ?out = results ?out
      \<and> (\<exists>incId rest m. selectedIds sel = incId # rest
            \<and> notifyOne notify u incId = ApiFail m
            \<and> shown ?out = AssignFailedAlert (or_else m ''Unknown error''))"
    if none: "filter success ?rs = []"
  proof -
    have all: "filter (\<lambda>r. \<not> success r) ?rs = ?rs"
      using none by (rule filter_none)
    obtain incId rest where ids: "selectedIds sel = incId # rest"
      using assms(1) by (cases "selectedIds sel") auto
    have "\<not> success (notifyOne notify u incId)"
      using none ids by (simp split: if_splits)
    then obtain m where m: "notifyOne notify u incId = ApiFail m"
      by (cases "notifyOne notify u incId") auto
    have "shown ?out = AssignFailedAlert (or_else m ''Unknown error'')"
      using assms none all ids m by (simp add: submit_def Let_def)
    then show ?thesis
      using ids m all r bad by auto
  qed
  have total: "length (filter success ?rs) + length (filter (\<lambda>r. \<not> success r) ?rs)
      = length (selectedIds sel)"
    using filter_lengths [of success ?rs] by simp
  have count: "length (filter success ?rs)
      = length (filter (\<lambda>incId. success (notifyOne notify u incId)) (selectedIds sel))"
    by (rule filter_success_map)
  show ?thesis
    unfolding r ok bad gb
    using total count shown_ok shown_bad
    unfolding r ok bad
    by blast
qed

theorem submit_partial_failure_witness:
  "selectedIds three_selected \<noteq> [] \<and> truthy_num 7
   \<and> shown (submit (notify_refusing 2) three_selected (Some 7)) = AssignedAlert 2 1
   \<and> goBack (submit (notify_refusing 2) three_selected (Some 7))
   \<and> succeeded (submit notify_down three_selected (Some 7)) = []
   \<and> shown (submit notify_down three_selected (Some 7)) = AssignFailedAlert ''Network request failed''
   \<and> \<not> goBack (submit notify_down three_selected (Some 7))"
proof -
  have h: "selectedIds three_selected \<noteq> []" "truthy_num 7"
    by (simp_all add: selectedIds_def three_selected_def truthy_num_def)
  have s: "succeeded (submit (notify_refusing 2) three_selected (Some 7)) = [ApiOk (), ApiOk ()]"
    by (simp add: submit_def selectedIds_def three_selected_def truthy_num_def Let_def
        notifyOne_def notify_refusing_def)
  have f: "failed (submit (notify_refusing 2) three_selected (Some 7))
             = [ApiFail (Some ''Incident not found'')]"
    by (simp add: submit_def selectedIds_def three_selected_def truthy_num_def Let_def
        notifyOne_def notify_refusing_def)
  have part: "shown (submit (notify_refusing 2) three_selected (Some 7)) = AssignedAlert 2 1
      \<and> goBack (submit (notify_refusing 2) three_selected (Some 7))"
    using submit_partial_failure [OF h, of "notify_refusing 2"] by (simp add: s f)
  have none: "succeeded (submit notify_down three_selected (Some 7)) = []"
    by (simp add: submit_def selectedIds_def three_selected_def truthy_num_def Let_def
        notifyOne_def notify_down_def or_str_def truthy_str_def)
  have ids: "selectedIds three_selected = [1, 2, 3]"
    by (simp add: selectedIds_def three_selected_def)
  have one: "notifyOne notify_down 7 incId = ApiFail (Some ''Network request failed'')" for incId
    by (simp add: notifyOne_def notify_down_def or_str_def truthy_str_def)
  have msg: "or_else (Some ''Network request failed'') ''Unknown error'' = ''Network request failed''"
    by (simp add: or_else_def truthy_str_def)
  from submit_partial_failure [OF h, of notify_down] none
  obtain incId rest m where
    "selectedIds three_selected = incId # rest"
    "notifyOne notify_down 7 incId = ApiFail m"
    "shown (submit notify_down three_selected (Some 7)) = AssignFailedAlert (or_else m ''Unknown error'')"
    and nb: "goBack (submit notify_down three_selected (Some 7))
               = (succeeded (submit notify_down three_selected (Some 7)) \<noteq> [])"
    by blast
  then have all: "shown (submit notify_down three_selected (Some 7))
      = AssignFailedAlert ''Network request failed''"
    using one [of incId] msg by simp
  show ?thesis
    using h part none all nb by simp
qed

text \<open>
  C5 as stated fails in its example. With incidents 1, 2 and 3 selected and only the call
  for incident 2 failing, \<open>succeeded\<close> is the list of two result objects and \<open>failed\<close> is
  the one failure result with its message; neither holds an incident id, and the alert
  gives the counts 2 and 1. The outcome is the same when it is the call for incident 1
  that fails.
\<close>

theorem submit_reports_counts_counterexample:
  "succeeded (submit (notify_refusing 2) three_selected (Some 7)) = [ApiOk (), ApiOk ()]
   \<and> failed (submit (notify_refusing 2) three_selected (Some 7))
       = [ApiFail (Some ''Incident not found'')]
   \<and> shown (submit (notify_refusing 2) three_selected (Some 7)) = AssignedAlert 2 1
   \<and> succeeded (submit (notify_refusing 1) three_selected (Some 7))
       = succeeded (submit (notify_refusing 2) three_selected (Some 7))
   \<and> failed (submit (notify_refusing 1) three_selected (Some 7))
       = failed (submit (notify_refusing 2) three_selected (Some 7))
   \<and> shown (submit (notify_refusing 1) three_selected (Some 7))
       = shown (submit (notify_refusing 2) three_selected (Some 7))"
  by (simp add: submit_def selectedIds_def three_selected_def truthy_num_def Let_def
      notifyOne_def notify_refusing_def)

section \<open>Who may verify evidence\<close>

text \<open>
  C6. On EvidenceStore, \<^verbatim>\<open>handleVerifyEvidence\<close> answers a security actor with the alert
  "Permission Denied" and calls the verify endpoint for no choice in any dialog; the
  endpoint is called only for the roles admin and viewer. For an admin or a viewer and an
  item without \<^verbatim>\<open>blockchain_tx_hash\<close>, the item's badge is "Not on Blockchain", its card
  has the note "Not on blockchain" and no "Verify Evidence" button, so a verify
  invocation from the card calls nothing.
\<close>

theorem verify_gating:
  "handleVerifyEvidence (Some ''security'') evidenceId choice
     = \<lparr>vt_alerts = [Alert ''Permission Denied'' ''Security role cannot verify evidence''],
        verifyCalls = []\<rparr>
   \<and> verifyCalls (pressVerify (Some ''security'') item choice) = []
   \<and> (verifyCalls (handleVerifyEvidence userRole evidenceId choice) \<noteq> [] \<longrightarrow> canVerify userRole)
   \<and> (canVerify userRole \<and> \<not> truthy_opt (blockchain_tx_hash item) \<longrightarrow>
        getVerificationBadge item = NotOnBlockchain
        \<and> pressVerify userRole item choice = \<lparr>vt_alerts = [], verifyCalls = []\<rparr>
        \<and> (renderItem userRole item \<noteq> InvalidEvidence \<longrightarrow>
             renderItem userRole item
               = Rendered \<lparr>view_badge = NotOnBlockchain, verifyButton = False,
                            notOnBlockchainNote = True\<rparr>))"
proof -
  have a: "handleVerifyEvidence (Some ''security'') evidenceId choice
     = \<lparr>vt_alerts = [Alert ''Permission Denied'' ''Security role cannot verify evidence''],
        verifyCalls = []\<rparr>"
    by (simp add: handleVerifyEvidence_def)
  have b: "verifyCalls (pressVerify (Some ''security'') item choice) = []"
    by (simp add: pressVerify_def renderItem_def canVerify_def)
  have c: "verifyCalls (handleVerifyEvidence userRole evidenceId choice) \<noteq> [] \<longrightarrow> canVerify userRole"
    by (auto simp: handleVerifyEvidence_def canVerify_def split: if_splits)
  have d: "canVerify userRole \<and> \<not> truthy_opt (blockchain_tx_hash item) \<longrightarrow>
        getVerificationBadge item = NotOnBlockchain
        \<and> pressVerify userRole item choice = \<lparr>vt_alerts = [], verifyCalls = []\<rparr>
        \<and> (renderItem userRole item \<noteq> InvalidEvidence \<longrightarrow>
             renderItem userRole item
               = Rendered \<lparr>view_badge = NotOnBlockchain, verifyButton = False,
                            notOnBlockchainNote = True\<rparr>)"
    by (simp add: getVerificationBadge_def pressVerify_def renderItem_def)
  show ?thesis
    using a b c d by (intro conjI)
qed

theorem verify_gating_witness:
  "canVerify (Some ''viewer'') \<and> \<not> truthy_opt (blockchain_tx_hash unanchored_evidence)
   \<and> renderItem (Some ''viewer'') unanchored_evidence \<noteq> InvalidEvidence
   \<and> getVerificationBadge unanchored_evidence = NotOnBlockchain
   \<and> pressVerify (Some ''viewer'') unanchored_evidence Verify = \<lparr>vt_alerts = [], verifyCalls = []\<rparr>
   \<and> renderItem (Some ''viewer'') unanchored_evidence
       = Rendered \<lparr>view_badge = NotOnBlockchain, verifyButton = False, notOnBlockchainNote = True\<rparr>"
proof -
  have h: "canVerify (Some ''viewer'') \<and> \<not> truthy_opt (blockchain_tx_hash unanchored_evidence)"
    by (simp add: canVerify_def truthy_opt_def unanchored_evidence_def)
  have v: "renderItem (Some ''viewer'') unanchored_evidence \<noteq> InvalidEvidence"
    by (simp add: renderItem_def unanchored_evidence_def truthy_num_def truthy_id_def
        truthy_opt_def truthy_str_def)
  show ?thesis
    using h v verify_gating [of 9 Verify unanchored_evidence "Some ''viewer''"] by blast
qed

section \<open>A verification result and later refreshes\<close>







section \<open>The action button of the admin dashboard\<close>

lemma acknowledgeIncident_request:
  "fst (acknowledgeIncident base i backend) = \<lparr>req_incident = i, req_acknowledged = True\<rparr>"
  by (simp add: acknowledgeIncident_def acknowledgeIncidentWithStatus_def Let_def)

lemma ad_fetchIncidents_requests: "ad_requests (ad_fetchIncidents refreshed s) = ad_requests s"
  by (cases refreshed rule: awaited_cases) (simp_all add: ad_fetchIncidents_def)

lemma ad_acknowledge_requests:
  "ad_requests (ad_acknowledge base backend refreshed i s)
     = ad_requests s @ [\<lparr>req_incident = i, req_acknowledged = True\<rparr>]"
proof (cases "snd (acknowledgeIncident base i backend)")
  case (ApiOk d)
  then show ?thesis
    using acknowledgeIncident_request [of base i backend]
    by (simp add: ad_acknowledge_def Let_def split_beta ad_fetchIncidents_requests)
next
  case (ApiFail m)
  then show ?thesis
    using acknowledgeIncident_request [of base i backend]
    by (simp add: ad_acknowledge_def Let_def split_beta)
qed

lemma pressAction_requests:
  "ad_requests (pressAction base backend refreshed s item)
     = ad_requests s @ (if actionDisabled s item then []
                        else [\<lparr>req_incident = inc_id item, req_acknowledged = True\<rparr>])"
  by (simp add: pressAction_def ad_acknowledge_requests)

lemma ad_run_requests:
  "list_all req_acknowledged (ad_requests s) \<Longrightarrow>
     list_all req_acknowledged (ad_requests (ad_run base s presses))"
proof (induction presses arbitrary: s)
  case Nil
  then show ?case by simp
next
  case (Cons p presses)
  obtain backend refreshed item where p: "p = (backend, refreshed, item)"
    by (cases p) auto
  have "list_all req_acknowledged (ad_requests (pressAction base backend refreshed s item))"
    using Cons.prems by (simp add: pressAction_requests)
  then show ?case using Cons.IH p by simp
qed

lemma ad_acknowledge_failed:
  "\<not> success (snd (acknowledgeIncident base i backend)) \<Longrightarrow>
     ad_incidents (ad_acknowledge base backend refreshed i s) = ad_incidents s"
  by (cases "snd (acknowledgeIncident base i backend)")
     (simp_all add: ad_acknowledge_def Let_def split_beta)

text \<open>
  C10. On the admin dashboard the action button of an incident is labelled "Revoke" when
  the incident is acknowledged and "Acknowledge" otherwise, and a press on it, under
  either label, calls \<^verbatim>\<open>acknowledgeIncident(id)\<close>, whose request carries
  \<^verbatim>\<open>acknowledged=true\<close>. Over any series of presses no request with
  \<^verbatim>\<open>acknowledged=false\<close> is sent, so "Revoke" never asks the backend to take an
  acknowledgement back; and the screen itself changes its list only by loading the
  backend's list after a successful call.
\<close>

theorem revoke_sends_acknowledge:
  "actionLabel item = (if isAcknowledged item then ''Revoke'' else ''Acknowledge'')
   \<and> fst (acknowledgeIncident base (inc_id item) backend)
       = \<lparr>req_incident = inc_id item, req_acknowledged = True\<rparr>
   \<and> ad_requests (pressAction base backend refreshed s item)
       = ad_requests s @ (if actionDisabled s item then []
                          else [\<lparr>req_incident = inc_id item, req_acknowledged = True\<rparr>])
   \<and> list_all req_acknowledged (ad_requests (ad_run base (ad_mounted incs) presses))
   \<and> (\<not> success (snd (acknowledgeIncident base (inc_id item) backend)) \<longrightarrow>
        ad_incidents (pressAction base backend refreshed s item) = ad_incidents s)"
proof -
  have runs: "list_all req_acknowledged (ad_requests (ad_run base (ad_mounted incs) presses))"
    by (rule ad_run_requests) (simp add: ad_mounted_def)
  have kept: "\<not> success (snd (acknowledgeIncident base (inc_id item) backend)) \<longrightarrow>
        ad_incidents (pressAction base backend refreshed s item) = ad_incidents s"
    by (simp add: pressAction_def ad_acknowledge_failed)
  show ?thesis
    using runs kept
    by (simp add: actionLabel_def acknowledgeIncident_request pressAction_requests)
qed

theorem revoke_sends_acknowledge_witness:
  "isAcknowledged acked_report
   \<and> actionLabel acked_report = ''Revoke''
   \<and> \<not> actionDisabled (ad_mounted [acked_report]) acked_report
   \<and> ad_requests (pressAction ''http://10.0.2.2:8000'' accepting (Returned (ApiOk [acked_report]))
        (ad_mounted [acked_report]) acked_report)
      = [\<lparr>req_incident = 43, req_acknowledged = True\<rparr>]
   \<and> \<not> success (snd (acknowledgeIncident ''http://10.0.2.2:8000'' (inc_id acked_report) unreachable))
   \<and> ad_incidents (pressAction ''http://10.0.2.2:8000'' unreachable (Returned (ApiOk []))
        (ad_mounted [acked_report]) acked_report)
      = ad_incidents (ad_mounted [acked_report])"
proof -
  have a: "isAcknowledged acked_report \<and> inc_id acked_report = 43"
    by (simp add: isAcknowledged_def acked_report_def)
  have d: "\<not> actionDisabled (ad_mounted [acked_report]) acked_report"
    by (simp add: actionDisabled_def ad_mounted_def)
  have e: "ad_requests (ad_mounted [acked_report]) = []"
    by (simp add: ad_mounted_def)
  have f: "\<not> success (snd (acknowledgeIncident ''http://10.0.2.2:8000'' (inc_id acked_report) unreachable))"
    by (simp add: acknowledgeIncident_def acknowledgeIncidentWithStatus_def Let_def unreachable_def)
  show ?thesis
    using a d f
      revoke_sends_acknowledge [of acked_report "''http://10.0.2.2:8000''" accepting
        "Returned (ApiOk [acked_report])" "ad_mounted [acked_report]" "[]" "[]"]
      revoke_sends_acknowledge [of acked_report "''http://10.0.2.2:8000''" unreachable
        "Returned (ApiOk [])" "ad_mounted [acked_report]" "[]" "[]"]
    by (simp add: e)
qed

end
